theory Spec2Isabelle
  imports Main "HOL-Library.Char_ord" "HOL-Library.List_Lexorder"
begin

section \<open>Values, documents and the record store\<close>

text \<open>
  \<^verbatim>\<open>server.js\<close> keeps rooms and bookings in two MongoDB collections and reads request
  bodies parsed from JSON. A stored field value is a scalar: null, a boolean, a number, a
  string, or the identifier the store gives a record. Numbers are the integers; arrays
  and nested documents are outside this development.
\<close>

datatype jsval = JNull | JBool bool | JNum int | JStr string | ObjectId nat

text \<open>
  A document (a stored record's attributes, an output row) maps field names to values.
  \<open>None\<close> is JavaScript's \<^verbatim>\<open>undefined\<close>: the field is absent.
\<close>

type_synonym doc = "string \<rightharpoonup> jsval"

text \<open>
  A request body is what the client sent, and the handlers check none of it. Besides a
  scalar, a field of the body may be an object whose keys are query operators of the
  store, such as \<^verbatim>\<open>{"$gt": ""}\<close>: placed in a filter it is read as the operators, not
  as a value. The six comparison operators are covered, with scalar operands.
\<close>

datatype operator = OpEq | OpNe | OpGt | OpGte | OpLt | OpLte

datatype reqval = Scalar jsval | Operators "(operator \<times> jsval) list"

type_synonym body = "string \<rightharpoonup> reqval"

text \<open>A body of scalars only, and the scalar fields of any body.\<close>

definition plain :: "doc \<Rightarrow> body" where
  "plain d k = map_option Scalar (d k)"

definition scalars :: "body \<Rightarrow> doc" where
  "scalars b k = (case b k of Some (Scalar v) \<Rightarrow> Some v | _ \<Rightarrow> None)"

definition has_operators :: "body \<Rightarrow> bool" where
  "has_operators b \<longleftrightarrow> (\<exists>k ops. b k = Some (Operators ops))"

text \<open>
  What a filter sees of a field: an absent field reads as null, and an \<^verbatim>\<open>undefined\<close>
  value placed in a filter is sent to the store as null.
\<close>

definition sent :: "jsval option \<Rightarrow> jsval" where
  "sent x = (case x of None \<Rightarrow> JNull | Some v \<Rightarrow> v)"

definition field :: "doc \<Rightarrow> string \<Rightarrow> jsval" where
  "field d k = sent (d k)"

definition given :: "reqval option \<Rightarrow> reqval" where
  "given x = (case x of None \<Rightarrow> Scalar JNull | Some v \<Rightarrow> v)"

text \<open>
  The store's order behind \<^verbatim>\<open>$lte\<close> and \<^verbatim>\<open>$gte\<close>: values are compared inside
  their own type only (numbers by value, strings byte by byte, \<open>False\<close> before
  \<open>True\<close>); values of two different types never satisfy a range operator.
\<close>

fun lte :: "jsval \<Rightarrow> jsval \<Rightarrow> bool" where
  "lte JNull JNull = True"
| "lte (JBool a) (JBool b) = (a \<le> b)"
| "lte (JNum a) (JNum b) = (a \<le> b)"
| "lte (JStr a) (JStr b) = (a \<le> b)"
| "lte (ObjectId a) (ObjectId b) = (a \<le> b)"
| "lte _ _ = False"

definition gte :: "jsval \<Rightarrow> jsval \<Rightarrow> bool" where
  "gte a b = lte b a"

text \<open>What one comparison operator asks of a stored value \<open>x\<close>.\<close>

fun compares :: "operator \<Rightarrow> jsval \<Rightarrow> jsval \<Rightarrow> bool" where
  "compares OpEq x v = (x = v)"
| "compares OpNe x v = (x \<noteq> v)"
| "compares OpGt x v = (gte x v \<and> \<not> lte x v)"
| "compares OpGte x v = gte x v"
| "compares OpLt x v = (lte x v \<and> \<not> gte x v)"
| "compares OpLte x v = lte x v"

text \<open>
  Filters, as the handlers write them: a filter document is a list of clauses that
  must all hold. A clause constrains one field (\<^verbatim>\<open>{k: v}\<close>, \<^verbatim>\<open>{k: {$lte: v}}\<close>,
  \<^verbatim>\<open>{k: {$gte: v}}\<close>) or is an \<^verbatim>\<open>$or\<close> over filter documents. The handlers put a
  value where \<open>v\<close> stands without looking at it. Where the store expects the value of the
  field, \<^verbatim>\<open>{k: v}\<close>, an object of operators is applied as operators; the empty object
  is a document, which no scalar equals. As the operand of \<^verbatim>\<open>$lte\<close> or \<^verbatim>\<open>$gte\<close> an
  object is a document as well, and no stored scalar is compared with a document.
\<close>

datatype cond = Equals reqval | Lte reqval | Gte reqval

datatype clause = FieldIs string cond | Or "clause list list"

type_synonym filter_doc = "clause list"

fun holds :: "jsval \<Rightarrow> cond \<Rightarrow> bool" where
  "holds x (Equals (Scalar v)) = (x = v)"
| "holds x (Equals (Operators [])) = False"
| "holds x (Equals (Operators (op # ops))) = list_all (\<lambda>(k, v). compares k x v) (op # ops)"
| "holds x (Lte (Scalar v)) = lte x v"
| "holds x (Lte (Operators ops)) = False"
| "holds x (Gte (Scalar v)) = gte x v"
| "holds x (Gte (Operators ops)) = False"

fun sat :: "doc \<Rightarrow> clause \<Rightarrow> bool" where
  "sat d (FieldIs k c) = holds (field d k) c"
| "sat d (Or fs) = list_ex (\<lambda>f. list_all (sat d) f) fs"

definition matches :: "doc \<Rightarrow> filter_doc \<Rightarrow> bool" where
  "matches d f = list_all (sat d) f"

text \<open>
  A stored record: its identifier beside the fields the caller supplied. The identifier
  is the \<^verbatim>\<open>_id\<close> of the stored document, which is what \<^verbatim>\<open>booking._id\<close> reads.
\<close>

record stored =
  ident :: jsval
  attrs :: doc

type_synonym collection = "stored list"

text \<open>
  The collection operations of the MongoDB driver that the handlers call; together they
  are the record store of section 6 of the specification, \<^verbatim>\<open>insert(record) -> id\<close> and
  \<^verbatim>\<open>find(filter) -> sequence of records\<close>. A collection is the sequence of its records
  in insertion order; nothing is ever updated or deleted. \<open>find_docs\<close> (the driver's
  \<^verbatim>\<open>find\<close>) returns the matching records in store order, \<open>findOne\<close> the first of them
  (\<open>None\<close> is JavaScript's \<^verbatim>\<open>null\<close>).

  \<open>insertOne\<close> keeps the \<^verbatim>\<open>_id\<close> of the document it is given and generates one, new
  to the collection, when the document has none or a null one. The collection's unique
  index on \<^verbatim>\<open>_id\<close> refuses an identifier that is already in use, and the call throws.

  A body that holds an object of operators is not a document of scalars and cannot be
  kept as one. For such a body \<open>insertOne\<close> throws, as a driver that checks the keys of
  what it inserts does; a driver that does not check them stores the document. Every
  theorem below about an insert is about a body of scalars, and the one counterexample
  that reaches this branch rests only on the answer not being the handler's 400.
\<close>

datatype store_error = DuplicateKey | KeyRefused

fun oid_bound :: "collection \<Rightarrow> nat" where
  "oid_bound [] = 0"
| "oid_bound (r # c) =
     (case ident r of ObjectId n \<Rightarrow> max (Suc n) (oid_bound c) | _ \<Rightarrow> oid_bound c)"

definition record_id :: "collection \<Rightarrow> doc \<Rightarrow> jsval" where
  "record_id c d = (if field d ''_id'' = JNull then ObjectId (oid_bound c) else field d ''_id'')"

definition insertOne :: "collection \<Rightarrow> body \<Rightarrow> store_error + collection" where
  "insertOne c b =
     (if has_operators b then Inl KeyRefused
      else let d = scalars b; i = record_id c d
           in if i \<in> set (map ident c) then Inl DuplicateKey
              else Inr (c @ [\<lparr>ident = i, attrs = d\<rparr>]))"

definition find_docs :: "collection \<Rightarrow> filter_doc \<Rightarrow> collection" where
  "find_docs c f = filter (\<lambda>r. matches (attrs r) f) c"

definition findOne :: "collection \<Rightarrow> filter_doc \<Rightarrow> stored option" where
  "findOne c f = List.find (\<lambda>r. matches (attrs r) f) c"

text \<open>
  The two module-level variables \<^verbatim>\<open>roomsCollection\<close> and \<^verbatim>\<open>bookingsCollection\<close> are
  assigned together by \<^verbatim>\<open>connectToMongo\<close>. The state of the server is \<open>None\<close> while they
  are still \<^verbatim>\<open>undefined\<close> (every handler then throws and answers 500) and \<open>Some\<close> of the
  two collections afterwards.
\<close>

record store =
  roomsCollection :: collection
  bookingsCollection :: collection

type_synonym state = "store option"

datatype payload = Text string | Error string | Rows "doc list"

record response =
  status :: nat
  payload :: payload

section \<open>The handlers of server.js\<close>

subsection \<open>POST /rooms\<close>


subsection \<open>POST /bookings\<close>

text \<open>The filter of the \<^verbatim>\<open>findOne\<close> call, lines 48 to 56, clause for clause.\<close>

definition conflict_filter :: "body \<Rightarrow> filter_doc" where
  "conflict_filter body =
     (let roomId = given (body ''roomId''); date = given (body ''date'');
          start = given (body ''start''); end = given (body ''end'')
      in [FieldIs ''roomId'' (Equals roomId),
          FieldIs ''date'' (Equals date),
          Or [[FieldIs ''start'' (Lte start), FieldIs ''end'' (Gte start)],
              [FieldIs ''start'' (Lte end), FieldIs ''end'' (Gte end)],
              [FieldIs ''start'' (Gte start), FieldIs ''end'' (Lte end)]]])"

definition post_bookings :: "state \<Rightarrow> body \<Rightarrow> state \<times> response" where
  "post_bookings st body =
     (case st of
        None \<Rightarrow> (st, \<lparr>status = 500, payload = Error ''Failed to book room''\<rparr>)
      | Some s \<Rightarrow>
          (case findOne (bookingsCollection s) (conflict_filter body) of
             Some existingBooking \<Rightarrow>
               (st, \<lparr>status = 400,
                     payload = Error ''Room already booked for the given date and time''\<rparr>)
           | None \<Rightarrow>
               (case insertOne (bookingsCollection s) body of
                  Inl error \<Rightarrow> (st, \<lparr>status = 500, payload = Error ''Failed to book room''\<rparr>)
                | Inr bookings \<Rightarrow>
                    (Some (s\<lparr>bookingsCollection := bookings\<rparr>),
                     \<lparr>status = 201, payload = Text ''Room Booked''\<rparr>))))"

subsection \<open>GET /rooms/bookings\<close>





subsection \<open>GET /customers/bookings\<close>





subsection \<open>GET /customers/:name\<close>

text \<open>
  What \<^verbatim>\<open>if (!customerBookings)\<close> tests. JavaScript's \<^verbatim>\<open>!\<close> is true of \<^verbatim>\<open>undefined\<close> and
  \<^verbatim>\<open>null\<close> and false of every array, the empty one too; \<^verbatim>\<open>toArray\<close> resolves to an
  array. The two listing handlers above only iterate over what \<^verbatim>\<open>toArray\<close> gives them,
  so there the array is the list itself.
\<close>

datatype 'a jsref = Undefined | Null | Array "'a list"

fun truthy :: "'a jsref \<Rightarrow> bool" where
  "truthy Undefined = False"
| "truthy Null = False"
| "truthy (Array xs) = True"

definition toArray :: "collection \<Rightarrow> stored jsref" where
  "toArray c = Array c"

definition history_row :: "stored \<Rightarrow> doc" where
  "history_row booking =
     Map.empty
      (''customerName'' := attrs booking ''customerName'',
       ''roomName'' := attrs booking ''roomId'',
       ''date'' := attrs booking ''date'',
       ''startTime'' := attrs booking ''start'',
       ''endTime'' := attrs booking ''end'',
       ''bookingId'' := Some (ident booking),
       ''bookingDate'' := attrs booking ''date'',
       ''bookingStatus'' := attrs booking ''status'')"

definition get_customers_name :: "state \<Rightarrow> string \<Rightarrow> response" where
  "get_customers_name st name =
     (case st of
        None \<Rightarrow> \<lparr>status = 500, payload = Error ''Failed to fetch customer bookings''\<rparr>
      | Some s \<Rightarrow>
          (let customerBookings =
                 toArray (find_docs (bookingsCollection s)
                            [FieldIs ''customerName'' (Equals (Scalar (JStr name)))])
           in if \<not> truthy customerBookings
              then \<lparr>status = 404, payload = Error ''Customer not found or has no bookings''\<rparr>
              else (case customerBookings of
                      Array bookings \<Rightarrow> \<lparr>status = 200, payload = Rows (map history_row bookings)\<rparr>
                    | _ \<Rightarrow> \<lparr>status = 500, payload = Error ''Failed to fetch customer bookings''\<rparr>)))"

section \<open>The specification's notions\<close>

text \<open>
  The specification's own words, to be compared with the handlers above. Two documents
  are on the same room and date when the two fields agree; \<open>IsOverlapping\<close> is the
  three-clause test of section 4.2, with the store's order as \<open>\<le>\<close>.
\<close>

definition same_room_date :: "doc \<Rightarrow> doc \<Rightarrow> bool" where
  "same_room_date candidate existing \<longleftrightarrow>
     field existing ''roomId'' = field candidate ''roomId'' \<and>
     field existing ''date'' = field candidate ''date''"

definition IsOverlapping :: "doc \<Rightarrow> doc \<Rightarrow> bool" where
  "IsOverlapping candidate existing \<longleftrightarrow>
     (lte (field existing ''start'') (field candidate ''start'') \<and>
      lte (field candidate ''start'') (field existing ''end'')) \<or>
     (lte (field existing ''start'') (field candidate ''end'') \<and>
      lte (field candidate ''end'') (field existing ''end'')) \<or>
     (lte (field candidate ''start'') (field existing ''start'') \<and>
      gte (field candidate ''end'') (field existing ''end''))"

text \<open>
  A request carries an identifier that is in use when its \<^verbatim>\<open>_id\<close> is not null and is
  the identifier of a stored record.
\<close>

definition id_in_use :: "collection \<Rightarrow> doc \<Rightarrow> bool" where
  "id_in_use c d \<longleftrightarrow> field d ''_id'' \<noteq> JNull \<and> field d ''_id'' \<in> set (map ident c)"



text \<open>
  Requests handled one after another: each call runs to its answer before the next one
  starts. The answers are kept in the order of the requests.
\<close>

fun handle_in_turn :: "state \<Rightarrow> body list \<Rightarrow> state \<times> response list" where
  "handle_in_turn st [] = (st, [])"
| "handle_in_turn st (body # bodies) =
     (case post_bookings st body of
        (st', r) \<Rightarrow> (case handle_in_turn st' bodies of (st'', rs) \<Rightarrow> (st'', r # rs)))"

text \<open>
  The invariant of section 3 in the order of admission: no stored booking, taken as the
  candidate, matches the conflict filter against a booking stored before it.
\<close>

fun conflict_free :: "collection \<Rightarrow> bool" where
  "conflict_free [] = True"
| "conflict_free (b # bs) =
     (list_all (\<lambda>c. \<not> matches (attrs b) (conflict_filter (plain (attrs c)))) bs \<and>
      conflict_free bs)"

text \<open>
  Calls in flight. The booking handler awaits the store twice, for \<^verbatim>\<open>findOne\<close> and for
  \<^verbatim>\<open>insertOne\<close>, and other handlers run while it waits. A call is \<open>Received\<close> until its
  query has run, \<open>Cleared\<close> when the query found nothing and the insert is still to come,
  and \<open>Answered\<close> at the end. The store is a connected one.
\<close>

datatype task = Received body | Cleared body | Answered response

text \<open>The three answers of the booking handler on a connected store.\<close>

definition slot_conflict :: response where
  "slot_conflict = \<lparr>status = 400, payload = Error ''Room already booked for the given date and time''\<rparr>"

definition room_booked :: response where
  "room_booked = \<lparr>status = 201, payload = Text ''Room Booked''\<rparr>"

definition booking_failed :: response where
  "booking_failed = \<lparr>status = 500, payload = Error ''Failed to book room''\<rparr>"

text \<open>One step of one call: the store operation it is waiting for.\<close>

fun advance :: "store \<Rightarrow> task \<Rightarrow> store \<times> task" where
  "advance s (Received body) =
     (case findOne (bookingsCollection s) (conflict_filter body) of
        Some existingBooking \<Rightarrow> (s, Answered slot_conflict)
      | None \<Rightarrow> (s, Cleared body))"
| "advance s (Cleared body) =
     (case insertOne (bookingsCollection s) body of
        Inl error \<Rightarrow> (s, Answered booking_failed)
      | Inr bookings \<Rightarrow> (s\<lparr>bookingsCollection := bookings\<rparr>, Answered room_booked))"
| "advance s (Answered r) = (s, Answered r)"

text \<open>
  A schedule names, step by step, the call that moves next; a step for a call that does
  not exist, or that is answered already, changes nothing.
\<close>

fun interleave :: "store \<Rightarrow> task list \<Rightarrow> nat list \<Rightarrow> store \<times> task list" where
  "interleave s ts [] = (s, ts)"
| "interleave s ts (i # schedule) =
     (if i < length ts
      then (case advance s (ts ! i) of (s', t') \<Rightarrow> interleave s' (ts[i := t']) schedule)
      else interleave s ts schedule)"

text \<open>
  The schedule that runs \<open>n\<close> calls one after another, from call \<open>k\<close> on: both steps of a
  call, then both steps of the next.
\<close>

definition in_turn :: "nat \<Rightarrow> nat \<Rightarrow> nat list" where
  "in_turn k n = concat (map (\<lambda>i. [i, i]) [k..<k + n])"

section \<open>Example data\<close>

text \<open>The scenario of section 8 of the specification, and two bookings that end before they start.\<close>

definition hall_a :: doc where
  "hall_a = [''roomId'' \<mapsto> JStr ''R1'', ''name'' \<mapsto> JStr ''Hall A'']"

definition alice_0900 :: doc where
  "alice_0900 = [''roomId'' \<mapsto> JStr ''R1'', ''date'' \<mapsto> JStr ''2024-01-01'',
     ''start'' \<mapsto> JStr ''09:00'', ''end'' \<mapsto> JStr ''10:00'', ''customerName'' \<mapsto> JStr ''Alice'']"

definition bob_1000 :: doc where
  "bob_1000 = [''roomId'' \<mapsto> JStr ''R1'', ''date'' \<mapsto> JStr ''2024-01-01'',
     ''start'' \<mapsto> JStr ''10:00'', ''end'' \<mapsto> JStr ''11:00'', ''customerName'' \<mapsto> JStr ''Bob'']"

definition bob_1001 :: doc where
  "bob_1001 = [''roomId'' \<mapsto> JStr ''R1'', ''date'' \<mapsto> JStr ''2024-01-01'',
     ''start'' \<mapsto> JStr ''10:01'', ''end'' \<mapsto> JStr ''11:00'', ''customerName'' \<mapsto> JStr ''Bob'']"


definition overnight :: doc where
  "overnight = [''roomId'' \<mapsto> JStr ''R1'', ''date'' \<mapsto> JStr ''2024-01-01'',
     ''start'' \<mapsto> JStr ''17:00'', ''end'' \<mapsto> JStr ''09:00'', ''customerName'' \<mapsto> JStr ''Dan'']"

definition backwards :: doc where
  "backwards = [''roomId'' \<mapsto> JStr ''R1'', ''date'' \<mapsto> JStr ''2024-01-01'',
     ''start'' \<mapsto> JStr ''09:00'', ''end'' \<mapsto> JStr ''08:00'', ''customerName'' \<mapsto> JStr ''Eve'']"

definition bob_0930 :: doc where
  "bob_0930 = [''roomId'' \<mapsto> JStr ''R1'', ''date'' \<mapsto> JStr ''2024-01-01'',
     ''start'' \<mapsto> JStr ''09:30'', ''end'' \<mapsto> JStr ''10:30'', ''customerName'' \<mapsto> JStr ''Bob'']"








definition one_booking :: store where
  "one_booking =
     \<lparr>roomsCollection = [\<lparr>ident = ObjectId 0, attrs = hall_a\<rparr>],
      bookingsCollection = [\<lparr>ident = ObjectId 0, attrs = alice_0900\<rparr>]\<rparr>"



definition no_bookings :: store where
  "no_bookings = \<lparr>roomsCollection = [\<lparr>ident = ObjectId 0, attrs = hall_a\<rparr>], bookingsCollection = []\<rparr>"



section \<open>The store's order and filters\<close>

lemma lte_refl: "lte v v"
  by (cases v) simp_all

lemma overlap_sym:
  "lte s1 e1 \<Longrightarrow> lte s2 e2 \<Longrightarrow>
   ((lte s2 s1 \<and> lte s1 e2) \<or> (lte s2 e1 \<and> lte e1 e2) \<or> (lte s1 s2 \<and> lte e2 e1)) =
   ((lte s1 s2 \<and> lte s2 e1) \<or> (lte s1 e2 \<and> lte e2 e1) \<or> (lte s2 s1 \<and> lte e1 e2))"
  by (cases s1; cases e1; simp; cases s2; cases e2; simp; force)

lemma field_is_string: "field d k = JStr x \<longleftrightarrow> d k = Some (JStr x)"
  by (simp add: field_def sent_def split: option.splits)

lemma given_plain: "given (plain d k) = Scalar (field d k)"
  by (simp add: given_def plain_def field_def sent_def split: option.splits)

lemma has_operators_plain: "\<not> has_operators (plain d)"
  by (auto simp add: has_operators_def plain_def)

lemma scalars_plain: "scalars (plain d) = d"
  by (rule ext) (simp add: scalars_def plain_def split: option.splits)

lemma matches_conflict_filter:
  "matches b (conflict_filter (plain c)) \<longleftrightarrow>
     field b ''roomId'' = field c ''roomId'' \<and> field b ''date'' = field c ''date'' \<and>
     ((lte (field b ''start'') (field c ''start'') \<and> lte (field c ''start'') (field b ''end'')) \<or>
      (lte (field b ''start'') (field c ''end'') \<and> lte (field c ''end'') (field b ''end'')) \<or>
      (lte (field c ''start'') (field b ''start'') \<and> lte (field b ''end'') (field c ''end'')))"
  by (simp add: matches_def conflict_filter_def given_plain gte_def Let_def)

lemma matches_conflict_spec:
  "matches b (conflict_filter (plain c)) \<longleftrightarrow> same_room_date c b \<and> IsOverlapping c b"
  by (simp add: matches_conflict_filter same_room_date_def IsOverlapping_def gte_def)

lemma findOne_None: "findOne c f = None \<longleftrightarrow> \<not> (\<exists>r\<in>set c. matches (attrs r) f)"
  by (auto simp add: findOne_def find_None_iff)


lemma find_docs_equals:
  "find_docs c [FieldIs k (Equals (Scalar v))] = filter (\<lambda>r. field (attrs r) k = v) c"
  by (simp add: find_docs_def matches_def)



section \<open>Identifiers and inserts\<close>

lemma oid_bound_above: "r \<in> set c \<Longrightarrow> ident r = ObjectId n \<Longrightarrow> n < oid_bound c"
  by (induction c) (auto split: jsval.splits)

lemma oid_bound_fresh: "ObjectId (oid_bound c) \<notin> set (map ident c)"
proof
  assume "ObjectId (oid_bound c) \<in> set (map ident c)"
  then obtain r where "r \<in> set c" and "ident r = ObjectId (oid_bound c)" by auto
  then have "oid_bound c < oid_bound c" by (rule oid_bound_above)
  then show False by simp
qed

lemma record_id_in_use: "record_id c d \<in> set (map ident c) \<longleftrightarrow> id_in_use c d"
proof (cases "field d ''_id'' = JNull")
  case True
  with oid_bound_fresh [of c] show ?thesis by (simp only: record_id_def id_in_use_def) simp
next
  case False
  then show ?thesis by (simp only: record_id_def id_in_use_def) simp
qed

lemma insertOne_plain:
  "insertOne c (plain d) =
     (if id_in_use c d then Inl DuplicateKey
      else Inr (c @ [\<lparr>ident = record_id c d, attrs = d\<rparr>]))"
  unfolding insertOne_def Let_def scalars_plain
  by (simp only: has_operators_plain record_id_in_use if_False)

section \<open>The loops and the joins\<close>













section \<open>Handlers on a connected store\<close>



lemma post_bookings_outcome:
  "post_bookings (Some s) (plain body) =
     (if \<exists>b\<in>set (bookingsCollection s). matches (attrs b) (conflict_filter (plain body))
      then (Some s, slot_conflict)
      else if id_in_use (bookingsCollection s) body then (Some s, booking_failed)
      else (Some (s\<lparr>bookingsCollection := bookingsCollection s @
                     [\<lparr>ident = record_id (bookingsCollection s) body, attrs = body\<rparr>]\<rparr>),
            room_booked))"
proof (cases "findOne (bookingsCollection s) (conflict_filter (plain body))")
  case None
  then show ?thesis
    using findOne_None [of "bookingsCollection s" "conflict_filter (plain body)"]
    by (simp add: post_bookings_def insertOne_plain booking_failed_def room_booked_def)
next
  case (Some r)
  then have "\<exists>b\<in>set (bookingsCollection s). matches (attrs b) (conflict_filter (plain body))"
    using findOne_None [of "bookingsCollection s" "conflict_filter (plain body)"] by simp
  with Some show ?thesis
    by (simp add: post_bookings_def slot_conflict_def)
qed

lemma advance_twice:
  "advance s (Received body) = (s1, t1) \<Longrightarrow> advance s1 t1 = (s2, t2) \<Longrightarrow>
   \<exists>r. post_bookings (Some s) body = (Some s2, r) \<and> t2 = Answered r"
  by (auto simp add: post_bookings_def slot_conflict_def room_booked_def booking_failed_def
      split: option.splits sum.splits)

lemma get_customers_name_rows:
  "get_customers_name (Some s) name =
     \<lparr>status = 200, payload = Rows (map history_row
        (filter (\<lambda>b. attrs b ''customerName'' = Some (JStr name)) (bookingsCollection s)))\<rparr>"
  by (simp add: get_customers_name_def toArray_def find_docs_equals field_is_string)

section \<open>The rows\<close>


lemma history_row_fields:
  "history_row booking ''customerName'' = attrs booking ''customerName''"
  "history_row booking ''roomName'' = attrs booking ''roomId''"
  "history_row booking ''date'' = attrs booking ''date''"
  "history_row booking ''startTime'' = attrs booking ''start''"
  "history_row booking ''endTime'' = attrs booking ''end''"
  "history_row booking ''bookingId'' = Some (ident booking)"
  "history_row booking ''bookingDate'' = attrs booking ''date''"
  "history_row booking ''bookingStatus'' = attrs booking ''status''"
  by (simp_all add: history_row_def)

section \<open>Conflict detection\<close>

text \<open>
  C1. For an existing booking with interval \<open>(s, e)\<close> and a candidate request with interval
  \<open>(s', e')\<close> on the same roomId and date, the filter of the admission query matches the
  existing booking if and only if \<open>s \<le> s' \<le> e\<close>, or \<open>s \<le> e' \<le> e\<close>, or \<open>s' \<le> s\<close> and
  \<open>e' \<ge> e\<close>. In particular, when the existing booking has \<open>s \<le> e\<close>, a candidate whose
  start equals the existing booking's end, or whose end equals the existing booking's
  start, is reported as conflicting.
\<close>

theorem conflict_filter_overlap:
  "same_room_date candidate existing \<Longrightarrow>
   s = field existing ''start'' \<Longrightarrow> e = field existing ''end'' \<Longrightarrow>
   s' = field candidate ''start'' \<Longrightarrow> e' = field candidate ''end'' \<Longrightarrow>
   (matches existing (conflict_filter (plain candidate)) \<longleftrightarrow>
      (lte s s' \<and> lte s' e) \<or> (lte s e' \<and> lte e' e) \<or> (lte s' s \<and> gte e' e)) \<and>
   (lte s e \<and> (e = s' \<or> e' = s) \<longrightarrow> matches existing (conflict_filter (plain candidate)))"
  by (auto simp add: matches_conflict_filter same_room_date_def gte_def lte_refl)

text \<open>The back-to-back bookings of the specification, 09:00 to 10:00 and 10:00 to 11:00.\<close>

theorem conflict_filter_overlap_witness:
  "same_room_date bob_1000 alice_0900 \<and> field alice_0900 ''end'' = field bob_1000 ''start'' \<and>
   matches alice_0900 (conflict_filter (plain bob_1000))"
proof -
  have h: "same_room_date bob_1000 alice_0900"
    by (simp add: same_room_date_def field_def sent_def alice_0900_def bob_1000_def)
  have t: "field alice_0900 ''end'' = field bob_1000 ''start''"
    by (simp add: field_def sent_def alice_0900_def bob_1000_def)
  have w: "lte (field alice_0900 ''start'') (field alice_0900 ''end'')"
    by (simp add: field_def sent_def alice_0900_def)
  from conflict_filter_overlap [OF h refl refl refl refl] t w
  have "matches alice_0900 (conflict_filter (plain bob_1000))" by blast
  with h t show ?thesis by blast
qed

text \<open>
  Without \<open>s \<le> e\<close> the last part fails: a stored booking from 17:00 to 09:00 and a request
  from 09:00 to 08:00 on the same room and date touch at 09:00, and the filter does not
  match.
\<close>

theorem touching_backwards_no_conflict:
  "same_room_date backwards overnight \<and> field overnight ''end'' = field backwards ''start'' \<and>
   \<not> matches overnight (conflict_filter (plain backwards))"
  by (simp add: matches_conflict_filter same_room_date_def field_def sent_def
      overnight_def backwards_def)

text \<open>
  C9. The conflict test is symmetric on intervals that start no later than they end: for
  documents \<open>a\<close> and \<open>b\<close> with start \<open>\<le>\<close> end, the filter built from \<open>a\<close> matches \<open>b\<close> if and
  only if the filter built from \<open>b\<close> matches \<open>a\<close>.
\<close>

theorem conflict_symmetric:
  "lte (field a ''start'') (field a ''end'') \<Longrightarrow> lte (field b ''start'') (field b ''end'') \<Longrightarrow>
   matches b (conflict_filter (plain a)) \<longleftrightarrow> matches a (conflict_filter (plain b))"
  unfolding matches_conflict_filter
  using overlap_sym [of "field a ''start''" "field a ''end''" "field b ''start''" "field b ''end''"]
  by auto

theorem conflict_symmetric_witness:
  "lte (field alice_0900 ''start'') (field alice_0900 ''end'') \<and>
   lte (field bob_1000 ''start'') (field bob_1000 ''end'') \<and>
   matches bob_1000 (conflict_filter (plain alice_0900)) =
     matches alice_0900 (conflict_filter (plain bob_1000))"
proof -
  have wa: "lte (field alice_0900 ''start'') (field alice_0900 ''end'')"
    by (simp add: field_def sent_def alice_0900_def)
  have wb: "lte (field bob_1000 ''start'') (field bob_1000 ''end'')"
    by (simp add: field_def sent_def bob_1000_def)
  from conflict_symmetric [OF wa wb] wa wb show ?thesis by blast
qed

text \<open>
  Without start \<open>\<le>\<close> end the symmetry fails: with the request from 17:00 to 09:00 as
  candidate and the booking from 10:00 to 11:00 as existing there is no conflict, and
  with the two roles exchanged there is one.
\<close>

theorem conflict_not_symmetric:
  "\<not> matches bob_1000 (conflict_filter (plain overnight)) \<and>
   matches overnight (conflict_filter (plain bob_1000))"
  by (simp add: matches_conflict_filter field_def sent_def overnight_def bob_1000_def)

section \<open>Admission\<close>







section \<open>Room creation\<close>




section \<open>Listings\<close>






section \<open>Customer history\<close>

text \<open>
  C6. The customer history never answers 404: what \<^verbatim>\<open>toArray\<close> resolves to is an array,
  which \<^verbatim>\<open>!\<close> never takes for absent, so the not-found branch is not reachable. On a
  connected store a name that no booking carries is answered 200 with an empty sequence.
\<close>

theorem get_customers_name_never_not_found:
  "status (get_customers_name st name) \<noteq> 404 \<and>
   truthy (toArray (find_docs c [FieldIs ''customerName'' (Equals (Scalar (JStr name)))])) \<and>
   ((\<forall>b\<in>set (bookingsCollection s). attrs b ''customerName'' \<noteq> Some (JStr name)) \<longrightarrow>
      get_customers_name (Some s) name = \<lparr>status = 200, payload = Rows []\<rparr>)"
proof (intro conjI impI)
  show "status (get_customers_name st name) \<noteq> 404"
    by (cases st) (simp_all add: get_customers_name_def toArray_def)
  show "truthy (toArray (find_docs c [FieldIs ''customerName'' (Equals (Scalar (JStr name)))]))"
    by (simp add: toArray_def)
next
  assume "\<forall>b\<in>set (bookingsCollection s). attrs b ''customerName'' \<noteq> Some (JStr name)"
  then have "filter (\<lambda>b. attrs b ''customerName'' = Some (JStr name)) (bookingsCollection s) = []"
    by (simp add: filter_empty_conv)
  then show "get_customers_name (Some s) name = \<lparr>status = 200, payload = Rows []\<rparr>"
    by (simp add: get_customers_name_rows)
qed

theorem get_customers_name_never_not_found_witness:
  "get_customers_name (Some one_booking) ''NoSuchCustomer'' = \<lparr>status = 200, payload = Rows []\<rparr> \<and>
   status (get_customers_name None ''NoSuchCustomer'') \<noteq> 404"
proof -
  have "\<forall>b\<in>set (bookingsCollection one_booking). attrs b ''customerName'' \<noteq> Some (JStr ''NoSuchCustomer'')"
    by (simp add: one_booking_def alice_0900_def)
  with get_customers_name_never_not_found [of None "''NoSuchCustomer''" "[]" one_booking]
  show ?thesis by blast
qed

text \<open>
  C7. On a connected store the customer history answers 200 with one row for each booking
  whose customerName is exactly the requested string, in store order. In a row,
  \<^verbatim>\<open>roomName\<close> is the booking's roomId, \<^verbatim>\<open>date\<close> and \<^verbatim>\<open>bookingDate\<close> are both the
  booking's date, and customerName, start, end, the store's identifier and status are
  carried as well.
\<close>

theorem get_customers_name_history:
  "get_customers_name (Some s) name =
     \<lparr>status = 200, payload = Rows (map history_row
        (filter (\<lambda>b. attrs b ''customerName'' = Some (JStr name)) (bookingsCollection s)))\<rparr> \<and>
   history_row booking ''customerName'' = attrs booking ''customerName'' \<and>
   history_row booking ''roomName'' = attrs booking ''roomId'' \<and>
   history_row booking ''date'' = attrs booking ''date'' \<and>
   history_row booking ''bookingDate'' = attrs booking ''date'' \<and>
   history_row booking ''startTime'' = attrs booking ''start'' \<and>
   history_row booking ''endTime'' = attrs booking ''end'' \<and>
   history_row booking ''bookingId'' = Some (ident booking) \<and>
   history_row booking ''bookingStatus'' = attrs booking ''status''"
  by (simp add: get_customers_name_rows history_row_fields)

theorem get_customers_name_history_witness:
  "get_customers_name (Some one_booking) ''Alice'' =
     \<lparr>status = 200, payload = Rows [history_row \<lparr>ident = ObjectId 0, attrs = alice_0900\<rparr>]\<rparr> \<and>
   get_customers_name (Some one_booking) ''alice'' = \<lparr>status = 200, payload = Rows []\<rparr> \<and>
   history_row \<lparr>ident = ObjectId 0, attrs = alice_0900\<rparr> ''roomName'' = Some (JStr ''R1'')"
proof -
  have bc: "bookingsCollection one_booking = [\<lparr>ident = ObjectId 0, attrs = alice_0900\<rparr>]"
    by (simp add: one_booking_def)
  have cn: "alice_0900 ''customerName'' = Some (JStr ''Alice'')" "alice_0900 ''roomId'' = Some (JStr ''R1'')"
    by (simp_all add: alice_0900_def)
  from get_customers_name_history [of one_booking "''Alice''" "\<lparr>ident = ObjectId 0, attrs = alice_0900\<rparr>"]
    get_customers_name_history [of one_booking "''alice''" "\<lparr>ident = ObjectId 0, attrs = alice_0900\<rparr>"]
  show ?thesis by (simp add: bc cn)
qed

section \<open>Admission of calls in flight together\<close>

text \<open>
  C3. Two calls in flight together, for the same room and date, 09:00 to 10:00 and 09:30
  to 10:30, each conflicting with the other, on a store without bookings: when both
  queries run before either insert, both calls are answered 201 and both bookings are
  stored. The claim has exactly one of them succeed.
\<close>

theorem interleaved_both_admitted:
  "matches alice_0900 (conflict_filter (plain bob_0930)) \<and>
   matches bob_0930 (conflict_filter (plain alice_0900)) \<and>
   interleave no_bookings [Received (plain alice_0900), Received (plain bob_0930)] [0, 1, 0, 1] =
     (no_bookings\<lparr>bookingsCollection :=
        [\<lparr>ident = ObjectId 0, attrs = alice_0900\<rparr>, \<lparr>ident = ObjectId 1, attrs = bob_0930\<rparr>]\<rparr>,
      [Answered room_booked, Answered room_booked])"
proof -
  have m: "matches alice_0900 (conflict_filter (plain bob_0930))"
    "matches bob_0930 (conflict_filter (plain alice_0900))"
    by (simp_all add: matches_conflict_filter field_def sent_def alice_0900_def bob_0930_def)
  have bc: "bookingsCollection no_bookings = []"
    by (simp add: no_bookings_def)
  have ia: "field alice_0900 ''_id'' = JNull" and ib: "field bob_0930 ''_id'' = JNull"
    by (simp_all add: field_def sent_def alice_0900_def bob_0930_def)
  have "interleave no_bookings [Received (plain alice_0900), Received (plain bob_0930)] [0, 1, 0, 1] =
     (no_bookings\<lparr>bookingsCollection :=
        [\<lparr>ident = ObjectId 0, attrs = alice_0900\<rparr>, \<lparr>ident = ObjectId 1, attrs = bob_0930\<rparr>]\<rparr>,
      [Answered room_booked, Answered room_booked])"
    by (simp add: bc findOne_def insertOne_plain id_in_use_def record_id_def ia ib)
  with m show ?thesis by simp
qed

section \<open>Admission, one call after another\<close>

lemma rejected_in_turn:
  assumes "\<forall>r\<in>set rs. \<exists>b\<in>set (bookingsCollection s). matches (attrs b) (conflict_filter (plain r))"
  shows "handle_in_turn (Some s) (map plain rs) = (Some s, replicate (length rs) slot_conflict)"
  using assms by (induction rs) (simp_all add: post_bookings_outcome)

lemma first_in_turn_wins:
  assumes "\<not> (\<exists>b\<in>set (bookingsCollection s). matches (attrs b) (conflict_filter (plain r1)))"
    and "\<not> id_in_use (bookingsCollection s) r1"
    and "\<forall>r\<in>set rs. matches r1 (conflict_filter (plain r))"
  shows "handle_in_turn (Some s) (map plain (r1 # rs)) =
           (Some (s\<lparr>bookingsCollection := bookingsCollection s @
                    [\<lparr>ident = record_id (bookingsCollection s) r1, attrs = r1\<rparr>]\<rparr>),
            room_booked # replicate (length rs) slot_conflict)"
proof -
  let ?s' = "s\<lparr>bookingsCollection := bookingsCollection s @
                    [\<lparr>ident = record_id (bookingsCollection s) r1, attrs = r1\<rparr>]\<rparr>"
  have first: "post_bookings (Some s) (plain r1) = (Some ?s', room_booked)"
    using assms(1,2) by (simp add: post_bookings_outcome)
  have "\<forall>r\<in>set rs. \<exists>b\<in>set (bookingsCollection ?s'). matches (attrs b) (conflict_filter (plain r))"
    using assms(3) by simp
  then have "handle_in_turn (Some ?s') (map plain rs) = (Some ?s', replicate (length rs) slot_conflict)"
    by (rule rejected_in_turn)
  with first show ?thesis by simp
qed

lemma conflict_free_snoc:
  "conflict_free (bs @ [n]) \<longleftrightarrow>
     conflict_free bs \<and> (\<forall>b\<in>set bs. \<not> matches (attrs b) (conflict_filter (plain (attrs n))))"
  by (induction bs) (auto simp add: list_all_iff)

lemma in_turn_0: "in_turn k 0 = []"
  by (simp add: in_turn_def)

lemma in_turn_Suc: "in_turn k (Suc n) = k # k # in_turn (Suc k) n"
  by (simp add: in_turn_def upt_conv_Cons)

lemma handle_in_turn_connected:
  "\<exists>s' rs. handle_in_turn (Some s) bodies = (Some s', rs)"
proof (induction bodies arbitrary: s)
  case Nil
  then show ?case by simp
next
  case (Cons b bs)
  have "\<exists>s1 r. post_bookings (Some s) b = (Some s1, r)"
    by (cases "findOne (bookingsCollection s) (conflict_filter b)";
        cases "insertOne (bookingsCollection s) b")
       (simp_all add: post_bookings_def)
  then obtain s1 r where p: "post_bookings (Some s) b = (Some s1, r)" by blast
  from Cons [of s1] obtain s' rs where "handle_in_turn (Some s1) bs = (Some s', rs)" by blast
  with p show ?case by simp
qed

lemma interleave_in_turn:
  "handle_in_turn (Some s) bodies = (Some s', rs) \<Longrightarrow>
   interleave s (pre @ map Received bodies) (in_turn (length pre) (length bodies)) =
     (s', pre @ map Answered rs)"
proof (induction bodies arbitrary: s pre rs s')
  case Nil
  then show ?case by (simp add: in_turn_0)
next
  case (Cons b bs)
  obtain s1 t1 where a1: "advance s (Received b) = (s1, t1)" by (cases "advance s (Received b)")
  obtain s2 t2 where a2: "advance s1 t1 = (s2, t2)" by (cases "advance s1 t1")
  from advance_twice [OF a1 a2] obtain r where
    p: "post_bookings (Some s) b = (Some s2, r)" and t2: "t2 = Answered r" by blast
  from handle_in_turn_connected [of s2 bs] obtain s3 rs' where
    h: "handle_in_turn (Some s2) bs = (Some s3, rs')" by blast
  with p Cons.prems have eq: "s' = s3" "rs = r # rs'" by simp_all
  have ih: "interleave s2 ((pre @ [Answered r]) @ map Received bs)
              (in_turn (length (pre @ [Answered r])) (length bs)) =
            (s3, (pre @ [Answered r]) @ map Answered rs')"
    by (rule Cons.IH [OF h])
  have "interleave s (pre @ map Received (b # bs)) (in_turn (length pre) (length (b # bs))) =
        interleave s2 ((pre @ [Answered r]) @ map Received bs) (in_turn (Suc (length pre)) (length bs))"
    using a1 a2 t2 by (simp add: in_turn_Suc nth_append)
  with ih eq show ?case by simp
qed

text \<open>
  When the calls are handled one after another on a connected store, the requests are
  of scalars, the first conflicts with no stored booking and brings no identifier that
  is in use, and every later request overlaps the first on the same roomId and date,
  then exactly one call succeeds, the first, and every other call is answered 400; the
  store gains the first request's booking and no other.
\<close>

theorem one_after_another_first_wins:
  assumes "\<not> (\<exists>b\<in>set (bookingsCollection s). same_room_date r1 (attrs b) \<and> IsOverlapping r1 (attrs b))"
    and "\<not> id_in_use (bookingsCollection s) r1"
    and "\<forall>r\<in>set rs. same_room_date r r1 \<and> IsOverlapping r r1"
  shows "interleave s (map Received (map plain (r1 # rs))) (in_turn 0 (length (r1 # rs))) =
           (s\<lparr>bookingsCollection := bookingsCollection s @
                [\<lparr>ident = record_id (bookingsCollection s) r1, attrs = r1\<rparr>]\<rparr>,
            Answered room_booked # replicate (length rs) (Answered slot_conflict))"
proof -
  from assms have "handle_in_turn (Some s) (map plain (r1 # rs)) =
           (Some (s\<lparr>bookingsCollection := bookingsCollection s @
                    [\<lparr>ident = record_id (bookingsCollection s) r1, attrs = r1\<rparr>]\<rparr>),
            room_booked # replicate (length rs) slot_conflict)"
    by (intro first_in_turn_wins) (simp_all add: matches_conflict_spec)
  from interleave_in_turn [OF this, of "[]"] show ?thesis by simp
qed

theorem one_after_another_first_wins_witness:
  "interleave no_bookings [Received (plain alice_0900), Received (plain bob_0930)] [0, 0, 1, 1] =
     (no_bookings\<lparr>bookingsCollection := [\<lparr>ident = ObjectId 0, attrs = alice_0900\<rparr>]\<rparr>,
      [Answered room_booked, Answered slot_conflict])"
proof -
  have bc: "bookingsCollection no_bookings = []"
    by (simp add: no_bookings_def)
  have free: "\<not> (\<exists>b\<in>set (bookingsCollection no_bookings).
                  same_room_date alice_0900 (attrs b) \<and> IsOverlapping alice_0900 (attrs b))"
    by (simp add: bc)
  have unused: "\<not> id_in_use (bookingsCollection no_bookings) alice_0900"
    by (simp add: id_in_use_def bc)
  have later: "\<forall>r\<in>set [bob_0930]. same_room_date r alice_0900 \<and> IsOverlapping r alice_0900"
    by (simp add: same_room_date_def IsOverlapping_def gte_def field_def sent_def
        alice_0900_def bob_0930_def)
  have sched: "in_turn 0 (length [alice_0900, bob_0930]) = [0, 0, 1, 1]"
    by (simp add: in_turn_def upt_rec)
  have calls: "map Received (map plain [alice_0900, bob_0930]) =
      [Received (plain alice_0900), Received (plain bob_0930)]"
    by simp
  have answers: "replicate (length [bob_0930]) (Answered slot_conflict) = [Answered slot_conflict]"
    by simp
  have stored: "bookingsCollection no_bookings @
      [\<lparr>ident = record_id (bookingsCollection no_bookings) alice_0900, attrs = alice_0900\<rparr>] =
      [\<lparr>ident = ObjectId 0, attrs = alice_0900\<rparr>]"
    by (simp add: bc record_id_def field_def sent_def alice_0900_def)
  from one_after_another_first_wins [OF free unused later] show ?thesis
    by (simp only: sched calls answers stored)
qed

section \<open>The stored-bookings invariant\<close>

text \<open>
  A booking request of scalars handled on a connected store whose bookings are free of
  conflicts in the order of admission leaves them so, whether it is admitted or not.
\<close>

theorem post_bookings_keeps_conflict_free:
  assumes "conflict_free (bookingsCollection s)"
    and "post_bookings (Some s) (plain body) = (Some s', r)"
  shows "conflict_free (bookingsCollection s')"
proof (cases "\<exists>b\<in>set (bookingsCollection s). matches (attrs b) (conflict_filter (plain body))")
  case True
  with assms show ?thesis by (simp add: post_bookings_outcome)
next
  case False
  show ?thesis
  proof (cases "id_in_use (bookingsCollection s) body")
    case True
    with False assms show ?thesis by (simp add: post_bookings_outcome)
  next
    case unused: False
    with False assms(2) have "bookingsCollection s' = bookingsCollection s @
        [\<lparr>ident = record_id (bookingsCollection s) body, attrs = body\<rparr>]"
      by (auto simp add: post_bookings_outcome)
    with False assms(1) show ?thesis by (simp add: conflict_free_snoc)
  qed
qed

theorem post_bookings_keeps_conflict_free_witness:
  "conflict_free (bookingsCollection one_booking) \<and>
   conflict_free [\<lparr>ident = ObjectId 0, attrs = alice_0900\<rparr>, \<lparr>ident = ObjectId 1, attrs = bob_1001\<rparr>]"
proof -
  let ?s' = "one_booking\<lparr>bookingsCollection :=
        [\<lparr>ident = ObjectId 0, attrs = alice_0900\<rparr>, \<lparr>ident = ObjectId 1, attrs = bob_1001\<rparr>]\<rparr>"
  have bc: "bookingsCollection one_booking = [\<lparr>ident = ObjectId 0, attrs = alice_0900\<rparr>]"
    by (simp add: one_booking_def)
  have cf: "conflict_free (bookingsCollection one_booking)"
    by (simp add: bc)
  have n: "\<not> (\<exists>b\<in>set (bookingsCollection one_booking).
             matches (attrs b) (conflict_filter (plain bob_1001)))"
    by (simp add: bc matches_conflict_filter field_def sent_def alice_0900_def bob_1001_def)
  have u: "\<not> id_in_use (bookingsCollection one_booking) bob_1001"
    by (simp add: id_in_use_def field_def sent_def bob_1001_def)
  have i: "record_id [\<lparr>ident = ObjectId 0, attrs = alice_0900\<rparr>] bob_1001 = ObjectId 1"
    by (simp add: record_id_def field_def sent_def bob_1001_def)
  have "post_bookings (Some one_booking) (plain bob_1001) = (Some ?s', room_booked)"
    using n u by (simp add: post_bookings_outcome bc i)
  from post_bookings_keeps_conflict_free [OF cf this] cf show ?thesis
    by simp
qed

end
